theory Spec2Isabelle
  imports Complex_Main
begin

section \<open>Python values and string primitives\<close>

text \<open>
  Strings are lists of characters, each standing for one ASCII code point. The
  classification functions below follow Python's \<^verbatim>\<open>str\<close> methods and the
  \<^verbatim>\<open>re\<close> module on ASCII text; a character above 127 is treated as an
  unclassified symbol (no digit, no letter, no white space).
\<close>

datatype py_error =
    OverflowError | AttributeError | TypeError | KeyError | ValueError | IndexError
  | EncoderError

datatype py_value = PyNone | PyStr string | PyInt int

definition is_digit :: "char \<Rightarrow> bool" where
  "is_digit c = (48 \<le> (of_char c :: int) \<and> (of_char c :: int) \<le> 57)"

definition is_lower :: "char \<Rightarrow> bool" where
  "is_lower c = (97 \<le> (of_char c :: int) \<and> (of_char c :: int) \<le> 122)"

definition is_upper :: "char \<Rightarrow> bool" where
  "is_upper c = (65 \<le> (of_char c :: int) \<and> (of_char c :: int) \<le> 90)"

definition is_space :: "char \<Rightarrow> bool" where
  \<comment> \<open>\<^verbatim>\<open>str.isspace\<close> and the class \<^verbatim>\<open>\s\<close>: TAB, LF, VT, FF, CR, FS, GS, RS, US and the blank.\<close>
  "is_space c = ((9 \<le> (of_char c :: int) \<and> (of_char c :: int) \<le> 13)
     \<or> (28 \<le> (of_char c :: int) \<and> (of_char c :: int) \<le> 32))"

definition is_word :: "char \<Rightarrow> bool" where
  \<comment> \<open>the class \<^verbatim>\<open>\w\<close>: letters, digits and the underscore\<close>
  "is_word c = (is_digit c \<or> is_lower c \<or> is_upper c \<or> c = CHR ''_'')"

definition lower_chr :: "char \<Rightarrow> char" where
  "lower_chr c = (if is_upper c then char_of ((of_char c :: int) + 32) else c)"

definition upper_chr :: "char \<Rightarrow> char" where
  "upper_chr c = (if is_lower c then char_of ((of_char c :: int) - 32) else c)"

definition lower :: "string \<Rightarrow> string" where
  "lower s = map lower_chr s"

definition strip :: "string \<Rightarrow> string" where
  "strip s = rev (dropWhile is_space (rev (dropWhile is_space s)))"

text \<open>\<^verbatim>\<open>s.split()\<close>: the maximal runs of characters that are not white space.\<close>

fun split_acc :: "string \<Rightarrow> string \<Rightarrow> string list" where
  "split_acc w [] = (if w = [] then [] else [rev w])"
| "split_acc w (c # cs) =
     (if is_space c then (if w = [] then split_acc [] cs else rev w # split_acc [] cs)
      else split_acc (c # w) cs)"

definition split :: "string \<Rightarrow> string list" where
  "split s = split_acc [] s"

text \<open>\<^verbatim>\<open>' '.join(ws)\<close>\<close>

fun join_sp :: "string list \<Rightarrow> string" where
  "join_sp [] = []"
| "join_sp [w] = w"
| "join_sp (w # ws) = w @ CHR '' '' # join_sp ws"

text \<open>
  \<^verbatim>\<open>s.title()\<close>: a letter is put in upper case when the character before it is
  not a letter, and in lower case otherwise.
\<close>

fun title_from :: "bool \<Rightarrow> string \<Rightarrow> string" where
  "title_from prev [] = []"
| "title_from prev (c # cs) =
     (if is_lower c \<or> is_upper c
      then (if prev then lower_chr c else upper_chr c) # title_from True cs
      else c # title_from False cs)"

definition title :: "string \<Rightarrow> string" where
  "title s = title_from False s"

fun starts_with :: "string \<Rightarrow> string \<Rightarrow> bool" where
  "starts_with [] s = True"
| "starts_with (p # ps) [] = False"
| "starts_with (p # ps) (c # cs) = (p = c \<and> starts_with ps cs)"

text \<open>\<^verbatim>\<open>p in s\<close> on strings: \<open>p\<close> occurs in \<open>s\<close> as a contiguous block.\<close>

fun contains :: "string \<Rightarrow> string \<Rightarrow> bool" where
  "contains p [] = (p = [])"
| "contains p (c # cs) = (starts_with p (c # cs) \<or> contains p cs)"

definition isdigit :: "string \<Rightarrow> bool" where
  "isdigit s = (s \<noteq> [] \<and> list_all is_digit s)"

text \<open>\<^verbatim>\<open>int(s)\<close> on a string of decimal digits (no limit on the number of digits).\<close>

definition int_of_digits :: "string \<Rightarrow> int" where
  "int_of_digits s = foldl (\<lambda>n c. 10 * n + ((of_char c - 48))) 0 s"

section \<open>Regular expressions\<close>

text \<open>
  The patterns of the program use literals, character classes, greedy repetition of a
  class, optional parts, ordered alternatives, capture groups, the word boundary
  \<^verbatim>\<open>\b\<close> and negative lookahead. The matcher returns every way a pattern can
  match at the current position, in the order in which the backtracking engine of
  \<^verbatim>\<open>re\<close> tries them; the head of the list is the match the engine reports.
\<close>

datatype cls = Digit | Space | LowerAZ | OneOf string | Union cls cls

fun in_cls :: "cls \<Rightarrow> char \<Rightarrow> bool" where
  "in_cls Digit c = is_digit c"
| "in_cls Space c = is_space c"
| "in_cls LowerAZ c = is_lower c"
| "in_cls (OneOf s) c = (c \<in> set s)"
| "in_cls (Union a b) c = (in_cls a c \<or> in_cls b c)"

datatype regex =
    Eps
  | Lit string
  | Cls cls
  | Seq regex regex
  | Alt regex regex
  | Rep cls nat "nat option"
  | Grp nat regex
  | WordB
  | NegLook regex

text \<open>
  A matcher state: the character before the current position (if any), the rest of the
  subject, and the groups captured so far (the latest first). A captured group is kept
  as the rest of the subject where the group starts and where it ends.
\<close>

type_synonym capture = "string \<times> string"

type_synonym mstate = "char option \<times> string \<times> (nat \<times> capture) list"

definition captured :: "capture \<Rightarrow> string" where
  "captured c = take (length (fst c) - length (snd c)) (fst c)"

fun strip_prefix :: "string \<Rightarrow> char option \<Rightarrow> string \<Rightarrow> (char option \<times> string) option" where
  "strip_prefix [] p s = Some (p, s)"
| "strip_prefix (x # xs) p [] = None"
| "strip_prefix (x # xs) p (c # cs) = (if x = c then strip_prefix xs (Some c) cs else None)"

text \<open>
  \<open>rep_list k n p s\<close>: the positions reached by consuming \<open>0, 1, \<dots>\<close> (at most
  \<open>n\<close>) characters of class \<open>k\<close>, the shortest first; \<open>rep_all\<close> is the same
  without a bound.
\<close>

fun rep_all :: "cls \<Rightarrow> char option \<Rightarrow> string \<Rightarrow> (char option \<times> string) list" where
  "rep_all k p [] = [(p, [])]"
| "rep_all k p (c # cs) = (p, c # cs) # (if in_cls k c then rep_all k (Some c) cs else [])"

fun rep_list :: "cls \<Rightarrow> nat \<Rightarrow> char option \<Rightarrow> string \<Rightarrow> (char option \<times> string) list" where
  "rep_list k 0 p s = [(p, s)]"
| "rep_list k (Suc n) p [] = [(p, [])]"
| "rep_list k (Suc n) p (c # cs) =
     (p, c # cs) # (if in_cls k c then rep_list k n (Some c) cs else [])"

definition word_opt :: "char option \<Rightarrow> bool" where
  "word_opt p = (case p of None \<Rightarrow> False | Some c \<Rightarrow> is_word c)"

definition next_chr :: "string \<Rightarrow> char option" where
  "next_chr s = (case s of [] \<Rightarrow> None | c # _ \<Rightarrow> Some c)"

fun rmatch :: "regex \<Rightarrow> mstate \<Rightarrow> mstate list" where
  "rmatch Eps st = [st]"
| "rmatch (Lit l) (p, s, g) =
     (case strip_prefix l p s of None \<Rightarrow> [] | Some (p', s') \<Rightarrow> [(p', s', g)])"
| "rmatch (Cls k) (p, s, g) =
     (case s of [] \<Rightarrow> [] | c # cs \<Rightarrow> if in_cls k c then [(Some c, cs, g)] else [])"
| "rmatch (Seq a b) st = concat (map (rmatch b) (rmatch a st))"
| "rmatch (Alt a b) st = rmatch a st @ rmatch b st"
| "rmatch (Rep k lo hi) (p, s, g) =
     map (\<lambda>(p', s'). (p', s', g))
       (rev (drop lo (case hi of None \<Rightarrow> rep_all k p s | Some h \<Rightarrow> rep_list k h p s)))"
| "rmatch (Grp n a) (p, s, g) =
     map (\<lambda>(p', s', g'). (p', s', (n, (s, s')) # g'))
       (rmatch a (p, s, g))"
| "rmatch WordB (p, s, g) =
     (if word_opt p \<noteq> word_opt (next_chr s) then [(p, s, g)] else [])"
| "rmatch (NegLook a) st = (case rmatch a st of [] \<Rightarrow> [st] | _ # _ \<Rightarrow> [])"

text \<open>A match object: the matched text, the captured groups, and where the match ended.\<close>

record rematch =
  group0 :: string
  groups :: "(nat \<times> capture) list"
  consumed :: nat

definition mk_match :: "string \<Rightarrow> mstate \<Rightarrow> rematch" where
  "mk_match s st = (case st of (p', s', g) \<Rightarrow>
     \<lparr>group0 = take (length s - length s') s, groups = g,
      consumed = length s - length s'\<rparr>)"

text \<open>\<^verbatim>\<open>m.group(n)\<close>: \<open>None\<close> when the group took no part in the match.\<close>

definition group :: "rematch \<Rightarrow> nat \<Rightarrow> string option" where
  "group m n = map_option captured (map_of (groups m) n)"

text \<open>\<^verbatim>\<open>re.search\<close>: the match at the leftmost position where the pattern matches.\<close>

fun search_from :: "regex \<Rightarrow> char option \<Rightarrow> string \<Rightarrow> rematch option" where
  "search_from r p [] = (case rmatch r (p, [], []) of [] \<Rightarrow> None | st # _ \<Rightarrow> Some (mk_match [] st))"
| "search_from r p (c # cs) =
     (case rmatch r (p, c # cs, []) of
        [] \<Rightarrow> search_from r (Some c) cs
      | st # _ \<Rightarrow> Some (mk_match (c # cs) st))"

definition re_search :: "regex \<Rightarrow> string \<Rightarrow> rematch option" where
  "re_search r s = search_from r None s"

text \<open>
  \<^verbatim>\<open>re.finditer\<close>: the successive matches from left to right, none overlapping. The
  counter is the number of characters still covered by the previous match. Every
  pattern of the program consumes at least one character, so no match is empty.
\<close>

fun finditer_from :: "regex \<Rightarrow> nat \<Rightarrow> char option \<Rightarrow> string \<Rightarrow> rematch list" where
  "finditer_from r (Suc k) p [] = []"
| "finditer_from r (Suc k) p (c # cs) = finditer_from r k (Some c) cs"
| "finditer_from r 0 p [] =
     (case rmatch r (p, [], []) of [] \<Rightarrow> [] | st # _ \<Rightarrow> [mk_match [] st])"
| "finditer_from r 0 p (c # cs) =
     (case rmatch r (p, c # cs, []) of
        [] \<Rightarrow> finditer_from r 0 (Some c) cs
      | st # _ \<Rightarrow> mk_match (c # cs) st
          # finditer_from r (consumed (mk_match (c # cs) st) - 1) (Some c) cs)"

definition re_finditer :: "regex \<Rightarrow> string \<Rightarrow> rematch list" where
  "re_finditer r s = finditer_from r 0 None s"

text \<open>Pattern syntax: a sequence, a list of alternatives, an optional part.\<close>

fun seqs :: "regex list \<Rightarrow> regex" where
  "seqs [] = Eps"
| "seqs [r] = r"
| "seqs (r # rs) = Seq r (seqs rs)"

fun alts :: "regex list \<Rightarrow> regex" where
  "alts [] = NegLook Eps"
| "alts [r] = r"
| "alts (r # rs) = Alt r (alts rs)"

definition opt :: "regex \<Rightarrow> regex" where
  "opt r = Alt r Eps"

definition star :: "cls \<Rightarrow> regex" where
  "star k = Rep k 0 None"

definition plus :: "cls \<Rightarrow> regex" where
  "plus k = Rep k 1 None"

section \<open>Integer division to a float, and rounding\<close>

text \<open>
  \<^verbatim>\<open>round(num / 30)\<close> divides two integers to a double and rounds the double to an
  integer. The division is correctly rounded (to 53 significant bits, ties to even) and
  raises \<^verbatim>\<open>OverflowError\<close> when the rounded quotient reaches \<open>2 ^ 1024\<close>;
  \<^verbatim>\<open>round\<close> rounds half to even. The double is kept as an exact fraction whose
  denominator is a power of two. Quotients are either zero or of magnitude at least
  \<open>1 / 30\<close> here, so no subnormal number occurs.
\<close>

function bit_length :: "int \<Rightarrow> nat" where
  "bit_length n = (if n \<le> 0 then 0 else Suc (bit_length (n div 2)))"
  by pat_completeness auto
termination
  by (relation "measure nat") auto

declare bit_length.simps [simp del]

definition rhe_div :: "int \<Rightarrow> int \<Rightarrow> int" where
  \<comment> \<open>\<open>a / b\<close> rounded to the nearest integer, a tie to the even one (\<open>0 \<le> a\<close>, \<open>0 < b\<close>)\<close>
  "rhe_div a b =
     (let q = a div b; r = a mod b
      in if 2 * r < b then q else if b < 2 * r then q + 1
         else if even q then q else q + 1)"

definition ge_pow2 :: "int \<Rightarrow> int \<Rightarrow> int \<Rightarrow> bool" where
  \<comment> \<open>\<open>2 ^ d \<le> a / b\<close>\<close>
  "ge_pow2 a b d = (if 0 \<le> d then b * 2 ^ nat d \<le> a else b \<le> a * 2 ^ nat (- d))"

text \<open>
  \<open>float_div a b\<close> for \<open>0 \<le> a\<close> and \<open>0 < b\<close>: the exponent \<open>e\<close> of the last
  significant bit is chosen so that \<open>2 ^ 52 \<le> a / (b * 2 ^ e) < 2 ^ 53\<close>, and the
  significand \<open>m\<close> is that quotient rounded. The result \<open>(n, k)\<close> stands for \<open>n / k\<close>.
\<close>

definition float_div :: "int \<Rightarrow> int \<Rightarrow> py_error + int \<times> int" where
  "float_div a b =
     (if a = 0 then Inr (0, 1)
      else
        let d = int (bit_length a) - int (bit_length b);
            e = (if ge_pow2 a b d then d else d - 1) - 52
        in if 0 \<le> e
           then (let m = rhe_div a (b * 2 ^ nat e)
                 in if 2 ^ 1024 \<le> m * 2 ^ nat e then Inl OverflowError
                    else Inr (m * 2 ^ nat e, 1))
           else Inr (rhe_div (a * 2 ^ nat (- e)) b, 2 ^ nat (- e)))"

definition round_div :: "int \<Rightarrow> int \<Rightarrow> py_error + int" where
  \<comment> \<open>\<^verbatim>\<open>round(a / b)\<close> for a positive divisor\<close>
  "round_div a b =
     (case float_div \<bar>a\<bar> b of
        Inl e \<Rightarrow> Inl e
      | Inr (n, k) \<Rightarrow> Inr (if a < 0 then - rhe_div n k else rhe_div n k))"

section \<open>The query parser (parse.py)\<close>

record parsed_query =
  raw_query :: py_value
  age :: "int option"
  gender :: "string option"
  procedure :: "string option"
  location :: "string option"
  policy_duration_months :: "int option"

definition empty_parsed :: "py_value \<Rightarrow> parsed_query" where
  "empty_parsed q = \<lparr>raw_query = q, age = None, gender = None, procedure = None,
     location = None, policy_duration_months = None\<rparr>"

subsection \<open>Age and gender\<close>

definition digits13 :: regex where
  "digits13 = Rep Digit 1 (Some 3)"

definition male_female :: regex where
  "male_female = alts [Lit ''male'', Lit ''female'']"

definition age_gender_patterns :: "regex list" where
  "age_gender_patterns =
    [seqs [WordB, Grp 1 digits13, star Space, opt (Cls (OneOf ''/-,'')), star Space,
           Grp 2 (Cls (OneOf ''mf'')), NegLook (Cls LowerAZ), WordB],
     seqs [WordB, Grp 1 digits13, plus Space, Grp 2 male_female, WordB],
     seqs [WordB, Grp 1 male_female, plus Space, Grp 2 digits13, WordB],
     seqs [WordB, Lit ''age'', star (Union (OneOf '':'') Space), Grp 1 digits13,
           star (Union (OneOf '','') Space), opt (Grp 2 male_female), WordB],
     seqs [WordB, Grp 1 male_female, star (Union (OneOf '','') Space), Lit ''age'',
           star (Union (OneOf '':'') Space), Grp 2 digits13, WordB]]"

definition gender_of :: "string \<Rightarrow> string option" where
  "gender_of g =
     (if starts_with ''m'' (lower g) then Some ''Male''
      else if starts_with ''f'' (lower g) then Some ''Female'' else None)"

text \<open>
  The body run for the first combined pattern that matches; \<open>i\<close> is the index of the
  pattern. A group read as a string while it took no part in the match raises.
\<close>

definition age_gender_body :: "nat \<Rightarrow> rematch \<Rightarrow> py_error + int option \<times> string option" where
  "age_gender_body i m =
     (if i \<in> {0, 1, 3} then
        (case group m 1 of
           None \<Rightarrow> Inl AttributeError
         | Some group1 \<Rightarrow>
             if isdigit group1 then
               (let a = int_of_digits group1
                in if 0 \<le> a \<and> a \<le> 120 then
                     Inr (Some a,
                          (case group m 2 of
                             None \<Rightarrow> None
                           | Some group2 \<Rightarrow> if group2 = [] then None else gender_of group2))
                   else Inr (None, None))
             else Inr (None, None))
      else if i \<in> {2, 4} then
        (case group m 2 of
           None \<Rightarrow> Inr (None, None)
         | Some group2 \<Rightarrow>
             if group2 \<noteq> [] \<and> isdigit group2 then
               (let a = int_of_digits group2
                in if 0 \<le> a \<and> a \<le> 120 then
                     (case group m 1 of
                        None \<Rightarrow> Inl AttributeError
                      | Some group1 \<Rightarrow> Inr (Some a, gender_of group1))
                   else Inr (None, None))
             else Inr (None, None))
      else Inr (None, None))"

text \<open>The loop over the combined patterns: the first pattern that matches ends it.\<close>

fun age_gender_loop :: "nat \<Rightarrow> regex list \<Rightarrow> string \<Rightarrow> py_error + int option \<times> string option" where
  "age_gender_loop i [] q = Inr (None, None)"
| "age_gender_loop i (pat # pats) q =
     (case re_search pat q of
        None \<Rightarrow> age_gender_loop (Suc i) pats q
      | Some m \<Rightarrow> age_gender_body i m)"

definition age_only_patterns :: "regex list" where
  "age_only_patterns =
    [seqs [WordB, Lit ''age'', star (Union (OneOf '':'') Space), Grp 1 digits13, WordB],
     seqs [WordB, Grp 1 digits13, star Space,
           alts [Seq (Lit ''year'') (opt (Lit ''s'')), Seq (Lit ''yr'') (opt (Lit ''s''))],
           star Space, Lit ''old'', WordB],
     seqs [WordB, Grp 1 digits13, star Space, Lit ''yo'', WordB]]"

text \<open>The loop over the age-only patterns: only a match with an age in range ends it.\<close>

fun age_only_loop :: "regex list \<Rightarrow> string \<Rightarrow> py_error + int option" where
  "age_only_loop [] q = Inr None"
| "age_only_loop (pat # pats) q =
     (case re_search pat q of
        None \<Rightarrow> age_only_loop pats q
      | Some m \<Rightarrow>
          (case group m 1 of
             None \<Rightarrow> Inl TypeError
           | Some g1 \<Rightarrow>
               (let a = int_of_digits g1
                in if 0 \<le> a \<and> a \<le> 120 then Inr (Some a) else age_only_loop pats q)))"

definition gender_patterns :: "regex list" where
  "gender_patterns =
    [seqs [WordB, Grp 1 male_female, WordB],
     seqs [WordB, Grp 1 (Cls (OneOf ''mf'')), NegLook (Cls LowerAZ), WordB]]"

fun gender_loop :: "regex list \<Rightarrow> string \<Rightarrow> py_error + string option" where
  "gender_loop [] q = Inr None"
| "gender_loop (pat # pats) q =
     (case re_search pat q of
        None \<Rightarrow> gender_loop pats q
      | Some m \<Rightarrow>
          (case group m 1 of
             None \<Rightarrow> Inl AttributeError
           | Some g1 \<Rightarrow>
               (let gender_str = lower g1
                in if gender_str \<in> {''male'', ''m''} then Inr (Some ''Male'')
                   else if gender_str \<in> {''female'', ''f''} then Inr (Some ''Female'')
                   else Inr None)))"

subsection \<open>Policy duration\<close>

definition long_unit :: regex where
  "long_unit = alts
    [Seq (Lit ''month'') (opt (Lit ''s'')),
     seqs [Lit ''mo'', opt (Lit ''nth''), NegLook (Lit ''le'')],
     Seq (Lit ''year'') (opt (Lit ''s'')),
     Seq (Lit ''yr'') (opt (Lit ''s'')),
     Seq (Lit ''day'') (opt (Lit ''s''))]"

definition duration_patterns :: "regex list" where
  "duration_patterns =
    [seqs [WordB, Grp 1 (plus Digit), star Space, opt (Cls (OneOf ''-'')), star Space,
           Grp 2 long_unit, star Space,
           opt (alts [Lit ''policy'', Lit ''plan'', Lit ''coverage'']), WordB],
     seqs [WordB, alts [Lit ''policy'', Lit ''plan'', Lit ''coverage''], star Space,
           opt (alts [Lit ''of'', Lit ''for'']), star Space, Grp 1 (plus Digit), star Space,
           Grp 2 long_unit, WordB],
     seqs [WordB, Grp 1 (plus Digit), star Space, opt (Cls (OneOf ''-'')), star Space,
           Grp 2 (alts [Seq (Lit ''m'') (NegLook (alts [Lit ''ale'', Lit ''ore''])),
                        Seq (Lit ''y'') (NegLook (Lit ''oung'')),
                        Lit ''d'']),
           star Space, opt (alts [Lit ''policy'', Lit ''plan'']), WordB]]"

text \<open>The conversion to months, in the order of the tests of the source.\<close>

definition to_months :: "int \<Rightarrow> string \<Rightarrow> py_error + int" where
  "to_months num unit =
     (if list_ex (\<lambda>keyword. contains keyword unit) [''year'', ''yr'', ''y''] then Inr (num * 12)
      else if list_ex (\<lambda>keyword. contains keyword unit) [''day'', ''d''] then
        (case round_div num 30 of Inl e \<Rightarrow> Inl e | Inr r \<Rightarrow> Inr (max 1 r))
      else Inr num)"

definition duration_body :: "rematch \<Rightarrow> py_error + int" where
  "duration_body m =
     (case group m 1 of
        None \<Rightarrow> Inl TypeError
      | Some g1 \<Rightarrow>
          (case group m 2 of
             None \<Rightarrow> Inl AttributeError
           | Some g2 \<Rightarrow> to_months (int_of_digits g1) (lower g2)))"

text \<open>
  The loop over the duration patterns. The body runs under
  \<^verbatim>\<open>except (ValueError, IndexError): continue\<close>; any other exception leaves the parser.
\<close>

fun duration_loop :: "regex list \<Rightarrow> string \<Rightarrow> py_error + int option" where
  "duration_loop [] q = Inr None"
| "duration_loop (pat # pats) q =
     (case re_search pat q of
        None \<Rightarrow> duration_loop pats q
      | Some m \<Rightarrow>
          (case duration_body m of
             Inr v \<Rightarrow> Inr (Some v)
           | Inl ValueError \<Rightarrow> duration_loop pats q
           | Inl IndexError \<Rightarrow> duration_loop pats q
           | Inl e \<Rightarrow> Inl e))"

subsection \<open>Location\<close>

definition cities_mapping :: "(string \<times> string) list" where
  "cities_mapping =
    [(''pune'', ''Pune''), (''mumbai'', ''Mumbai''), (''delhi'', ''Delhi''),
     (''new delhi'', ''Delhi''), (''bangalore'', ''Bangalore''),
     (''bengaluru'', ''Bangalore''), (''chennai'', ''Chennai''), (''kolkata'', ''Kolkata''),
     (''calcutta'', ''Kolkata''), (''hyderabad'', ''Hyderabad''),
     (''ahmedabad'', ''Ahmedabad''), (''surat'', ''Surat''), (''jaipur'', ''Jaipur''),
     (''lucknow'', ''Lucknow''), (''kanpur'', ''Kanpur''), (''nagpur'', ''Nagpur''),
     (''indore'', ''Indore''), (''thane'', ''Thane''), (''bhopal'', ''Bhopal''),
     (''visakhapatnam'', ''Visakhapatnam''), (''pimpri'', ''Pimpri''), (''patna'', ''Patna''),
     (''vadodara'', ''Vadodara''), (''ghaziabad'', ''Ghaziabad''),
     (''ludhiana'', ''Ludhiana''), (''agra'', ''Agra''), (''nashik'', ''Nashik''),
     (''faridabad'', ''Faridabad''), (''meerut'', ''Meerut''), (''rajkot'', ''Rajkot'')]"

text \<open>
  \<^verbatim>\<open>sorted(keys, key=len, reverse=True)\<close>: a stable sort, the longest names first, names
  of one length in the order of the dictionary.
\<close>

fun insert_by_len :: "string \<Rightarrow> string list \<Rightarrow> string list" where
  "insert_by_len x [] = [x]"
| "insert_by_len x (y # ys) =
     (if length y \<le> length x then x # y # ys else y # insert_by_len x ys)"

definition sorted_cities :: "string list" where
  "sorted_cities = foldr insert_by_len (map fst cities_mapping) []"

fun location_loop :: "string list \<Rightarrow> string \<Rightarrow> string option" where
  "location_loop [] q = None"
| "location_loop (city # cities) q =
     (case re_search (seqs [WordB, Lit city, WordB]) q of
        None \<Rightarrow> location_loop cities q
      | Some m \<Rightarrow> map_of cities_mapping city)"

subsection \<open>Procedure\<close>

definition all_keywords :: "string list" where
  "all_keywords =
    [''surgery'', ''surgical'', ''operation'', ''operative'',
     ''replacement'', ''implant'', ''prosthetic'',
     ''reconstruction'', ''reconstructive'', ''repair'',
     ''treatment'', ''therapy'', ''therapeutic'',
     ''biopsy'', ''scan'', ''test'', ''screening'', ''examination'',
     ''angioplasty'', ''bypass'', ''stent'', ''cardiac'',
     ''transplant'', ''transplantation'',
     ''procedure'', ''intervention'']"

definition keyword :: regex where
  "keyword = alts (map Lit all_keywords)"

definition procedure_patterns :: "regex list" where
  "procedure_patterns =
    [seqs [WordB, Grp 1 (plus LowerAZ), plus Space, Grp 2 keyword, WordB],
     seqs [WordB, Grp 1 keyword, plus Space, alts [Lit ''of'', Lit ''on'', Lit ''for''],
           plus Space, Grp 2 (plus LowerAZ), WordB],
     seqs [WordB, Grp 1 keyword, WordB],
     seqs [WordB,
           Grp 1 (seqs [plus LowerAZ, plus Space,
                        alts [Lit ''replacement'', Lit ''reconstruction'', Lit ''repair''],
                        opt (Seq (plus Space) (Lit ''surgery''))]),
           WordB]]"

text \<open>The longest match over all patterns; of two of one length the first found stays.\<close>

definition best_step :: "string option \<times> nat \<Rightarrow> rematch \<Rightarrow> string option \<times> nat" where
  "best_step b m =
     (let procedure_text = strip (group0 m)
      in if snd b < length procedure_text then (Some procedure_text, length procedure_text)
         else b)"

definition best_procedure :: "string \<Rightarrow> string option" where
  "best_procedure q =
     fst (foldl (\<lambda>b pat. foldl best_step b (re_finditer pat q)) (None, 0) procedure_patterns)"

subsection \<open>The parser\<close>

definition parse_text :: "py_value \<Rightarrow> string \<Rightarrow> py_error + parsed_query" where
  "parse_text query s =
     (let q_lower = strip (lower s)
      in case age_gender_loop 0 age_gender_patterns q_lower of
           Inl e \<Rightarrow> Inl e
         | Inr (a0, g0) \<Rightarrow>
       (case (if a0 = None then age_only_loop age_only_patterns q_lower else Inr a0) of
           Inl e \<Rightarrow> Inl e
         | Inr a \<Rightarrow>
       (case (if g0 = None then gender_loop gender_patterns q_lower else Inr g0) of
           Inl e \<Rightarrow> Inl e
         | Inr g \<Rightarrow>
       (case duration_loop duration_patterns q_lower of
           Inl e \<Rightarrow> Inl e
         | Inr d \<Rightarrow>
           Inr \<lparr>raw_query = query, age = a, gender = g,
                procedure =
                  (case best_procedure q_lower of
                     None \<Rightarrow> None
                   | Some bp \<Rightarrow> if bp = [] then None else Some (title (join_sp (split bp)))),
                location = location_loop sorted_cities q_lower,
                policy_duration_months = d\<rparr>))))"

definition parse_query :: "py_value \<Rightarrow> py_error + parsed_query" where
  "parse_query query =
     (case query of
        PyStr s \<Rightarrow> if s = [] then Inr (empty_parsed query) else parse_text query s
      | _ \<Rightarrow> Inr (empty_parsed query))"

section \<open>The decision engine (everything.py)\<close>

text \<open>
  A clause of the corpus is a dictionary that may hold a text and may hold an embedding.
  The encoder is a collaborator: it is absent or a function that returns a vector or
  fails. Floating-point numbers of the similarity computation are modelled as real
  numbers, so rounding is not part of the model. A justification is kept as the message
  it renders, with the values it is built from.
\<close>

record clause =
  clause_text :: "string option"
  clause_embedding :: "real list option"

type_synonym encoder = "string \<Rightarrow> py_error + real list"

datatype justification =
    WaitingShortfall int int string
  | MissingInformation
  | SemanticError
  | Excluded string real
  | Covered string real
  | PotentialCoverage string real
  | NotFound string
  | InvalidQuery

record decision =
  decision :: string
  justification :: "justification list"
  clauses :: "string list"
  confidence :: real

subsection \<open>Waiting periods in a text\<close>

definition period_unit :: regex where
  "period_unit = alts (map Lit
     [''day'', ''days'', ''month'', ''months'', ''year'', ''years'', ''yr'', ''yrs''])"

definition period_patterns :: "regex list" where
  "period_patterns =
    [seqs [Grp 1 (plus Digit), star Space, Grp 2 period_unit],
     seqs [Grp 1 (plus Digit), opt (Cls (OneOf ''-'')), Grp 2 period_unit],
     seqs [Lit ''waiting'', plus Space, Lit ''period'', plus Space,
           opt (Seq (Lit ''of'') (plus Space)), Grp 1 (plus Digit), star Space,
           Grp 2 period_unit]]"

text \<open>\<^verbatim>\<open>re.findall\<close> for a pattern with two groups: the pairs of captured texts.\<close>

definition re_findall :: "regex \<Rightarrow> string \<Rightarrow> (string \<times> string) list" where
  "re_findall r s =
     map (\<lambda>m. (case group m 1 of None \<Rightarrow> [] | Some g \<Rightarrow> g,
                case group m 2 of None \<Rightarrow> [] | Some g \<Rightarrow> g))
       (re_finditer r s)"

text \<open>
  One match: nothing for a number that is not positive, else the period in months. The
  body runs under \<^verbatim>\<open>except ValueError: continue\<close>.
\<close>

definition period_of :: "string \<times> string \<Rightarrow> py_error + int option" where
  "period_of nu =
     (let num = int_of_digits (fst nu); unit = snd nu
      in if num \<le> 0 then Inr None
         else if contains ''year'' unit \<or> contains ''yr'' unit then Inr (Some (num * 12))
         else if contains ''day'' unit then
           (case round_div num 30 of Inl e \<Rightarrow> Inl e | Inr r \<Rightarrow> Inr (Some (max 1 r)))
         else Inr (Some num))"

fun periods_loop :: "(string \<times> string) list \<Rightarrow> int list \<Rightarrow> py_error + int list" where
  "periods_loop [] periods = Inr periods"
| "periods_loop (nu # rest) periods =
     (case period_of nu of
        Inr None \<Rightarrow> periods_loop rest periods
      | Inr (Some v) \<Rightarrow> periods_loop rest (periods @ [v])
      | Inl ValueError \<Rightarrow> periods_loop rest periods
      | Inl e \<Rightarrow> Inl e)"

fun patterns_loop :: "regex list \<Rightarrow> string \<Rightarrow> int list \<Rightarrow> py_error + int list" where
  "patterns_loop [] t periods = Inr periods"
| "patterns_loop (pat # pats) t periods =
     (case periods_loop (re_findall pat (lower t)) periods of
        Inl e \<Rightarrow> Inl e
      | Inr periods' \<Rightarrow> patterns_loop pats t periods')"

definition extract_waiting_periods :: "string \<Rightarrow> py_error + int list" where
  "extract_waiting_periods t =
     (if t = [] then Inr [] else patterns_loop period_patterns t [])"

subsection \<open>Similarity\<close>

definition np_dot :: "real list \<Rightarrow> real list \<Rightarrow> py_error + real" where
  \<comment> \<open>\<^verbatim>\<open>np.dot\<close> of two vectors: vectors of different lengths raise\<close>
  "np_dot xs ys =
     (if length xs = length ys then Inr (sum_list (map2 (*) xs ys)) else Inl ValueError)"

definition np_norm :: "real list \<Rightarrow> real" where
  "np_norm xs = sqrt (sum_list (map (\<lambda>x. x * x) xs))"

definition cosine :: "real list \<Rightarrow> real list \<Rightarrow> py_error + real" where
  "cosine a b =
     (case np_dot a b of
        Inl e \<Rightarrow> Inl e
      | Inr d \<Rightarrow> Inr (d / (np_norm a * np_norm b + 1 / 10 ^ 8)))"

text \<open>
  The body of \<^verbatim>\<open>compute_similarity\<close> inside \<^verbatim>\<open>try\<close>, and the function with its
  \<^verbatim>\<open>except Exception\<close>, which turns every failure into \<open>0\<close>.
\<close>

definition similarity_body :: "encoder \<Rightarrow> string \<Rightarrow> string \<Rightarrow> py_error + real" where
  "similarity_body enc text1 text2 =
     (case enc text1 of
        Inl e \<Rightarrow> Inl e
      | Inr emb1 \<Rightarrow>
          (case enc text2 of
             Inl e \<Rightarrow> Inl e
           | Inr emb2 \<Rightarrow>
               (case cosine emb1 emb2 of
                  Inl e \<Rightarrow> Inl e
                | Inr similarity \<Rightarrow> Inr (max 0 (min 1 similarity)))))"

definition compute_similarity :: "encoder option \<Rightarrow> string \<Rightarrow> string \<Rightarrow> py_error + real" where
  "compute_similarity model text1 text2 =
     (case model of
        None \<Rightarrow> Inr 0
      | Some enc \<Rightarrow>
          if text1 = [] \<or> text2 = [] then Inr 0
          else (case similarity_body enc text1 text2 of
                  Inl e \<Rightarrow> Inr 0
                | Inr v \<Rightarrow> Inr v))"

subsection \<open>Stage 1: the waiting-period gate\<close>

text \<open>
  Whether the procedure is taken as mentioned by a clause text (both in lower case): one
  of its words of more than two characters occurs in the text, or, with an encoder, the
  similarity of the two is above \<open>0.3\<close>.
\<close>

definition lexical_mention :: "string \<Rightarrow> string \<Rightarrow> bool" where
  "lexical_mention proc ctext =
     list_ex (\<lambda>term. 2 < length term \<and> contains term ctext) (split proc)"

definition procedure_mentioned :: "encoder option \<Rightarrow> string \<Rightarrow> string \<Rightarrow> bool" where
  "procedure_mentioned model proc ctext =
     (lexical_mention proc ctext \<or>
      (model \<noteq> None \<and>
       (case compute_similarity model proc ctext of
          Inl e \<Rightarrow> False
        | Inr similarity \<Rightarrow> 3 / 10 < similarity)))"

text \<open>
  The loop over the corpus, with its two accumulators \<^verbatim>\<open>waiting_periods\<close> and
  \<^verbatim>\<open>relevant_clauses\<close>.
\<close>

fun waiting_loop ::
  "encoder option \<Rightarrow> string \<Rightarrow> clause list \<Rightarrow> int list \<times> string list
     \<Rightarrow> py_error + int list \<times> string list" where
  "waiting_loop model proc [] acc = Inr acc"
| "waiting_loop model proc (c # cs) acc =
     (case clause_text c of
        None \<Rightarrow> waiting_loop model proc cs acc
      | Some t \<Rightarrow>
          if \<not> contains ''waiting period'' (lower t) then waiting_loop model proc cs acc
          else if procedure_mentioned model proc (lower t) then
            (case extract_waiting_periods (lower t) of
               Inl e \<Rightarrow> Inl e
             | Inr periods \<Rightarrow>
                 if periods \<noteq> [] then
                   waiting_loop model proc cs (fst acc @ periods, snd acc @ [t])
                 else waiting_loop model proc cs acc)
          else waiting_loop model proc cs acc)"

definition check_waiting_period ::
  "encoder option \<Rightarrow> clause list \<Rightarrow> parsed_query \<Rightarrow> py_error + decision option" where
  "check_waiting_period model all_clauses parsed =
     (case policy_duration_months parsed of
        None \<Rightarrow> Inr None
      | Some policy_duration \<Rightarrow>
     (case procedure parsed of
        None \<Rightarrow> Inr None
      | Some proc \<Rightarrow>
          if policy_duration = 0 \<or> proc = [] \<or> all_clauses = [] then Inr None
          else
            (case waiting_loop model (lower proc) all_clauses ([], []) of
               Inl e \<Rightarrow> Inl e
             | Inr (waiting_periods, relevant_clauses) \<Rightarrow>
                 if waiting_periods \<noteq> [] \<and> policy_duration < min_list waiting_periods
                 then Inr (Some \<lparr>decision = ''rejected'',
                        justification =
                          [WaitingShortfall policy_duration (min_list waiting_periods) proc],
                        clauses = take 2 relevant_clauses,
                        confidence = 9 / 10\<rparr>)
                 else Inr None)))"

subsection \<open>Stage 2: procedure coverage\<close>

definition missing_information :: decision where
  "missing_information = \<lparr>decision = ''needs_review'',
     justification = [MissingInformation], clauses = [], confidence = 0\<rparr>"

definition semantic_error :: decision where
  "semantic_error = \<lparr>decision = ''needs_review'',
     justification = [SemanticError], clauses = [], confidence = 0\<rparr>"

text \<open>
  The search for the best clause, with \<^verbatim>\<open>best_match\<close> and \<^verbatim>\<open>best_score\<close>. A clause
  without an embedding, or with an empty one, is passed over; so is a clause whose
  similarity cannot be computed.
\<close>

fun best_loop :: "real list \<Rightarrow> clause list \<Rightarrow> clause option \<times> real \<Rightarrow> clause option \<times> real" where
  "best_loop proc_emb [] best = best"
| "best_loop proc_emb (c # cs) best =
     (case clause_embedding c of
        None \<Rightarrow> best_loop proc_emb cs best
      | Some emb \<Rightarrow>
          if emb = [] then best_loop proc_emb cs best
          else (case cosine proc_emb emb of
                  Inl e \<Rightarrow> best_loop proc_emb cs best
                | Inr similarity \<Rightarrow>
                    if snd best < similarity then best_loop proc_emb cs (Some c, similarity)
                    else best_loop proc_emb cs best))"

definition exclusion_keywords :: "string list" where
  "exclusion_keywords =
    [''not covered'', ''excluded'', ''not payable'', ''not eligible'',
     ''except'', ''excluding'', ''does not cover'', ''shall not'',
     ''not applicable'', ''not included'']"

definition is_excluded :: "string \<Rightarrow> bool" where
  "is_excluded t = list_ex (\<lambda>keyword. contains keyword (lower t)) exclusion_keywords"

text \<open>The decision from the best clause; reading the text of a clause without one raises.\<close>

definition classify :: "string \<Rightarrow> clause option \<times> real \<Rightarrow> py_error + decision" where
  "classify proc best =
     (case fst best of
        None \<Rightarrow> Inr \<lparr>decision = ''needs_review'', justification = [NotFound proc],
                      clauses = [], confidence = 0\<rparr>
      | Some best_match \<Rightarrow>
          let best_score = snd best in
          if 45 / 100 < best_score then
            (case clause_text best_match of
               None \<Rightarrow> Inl KeyError
             | Some t \<Rightarrow>
                 if is_excluded t
                 then Inr \<lparr>decision = ''rejected'', justification = [Excluded proc best_score],
                           clauses = [t], confidence = min (9 / 10) (best_score + 1 / 10)\<rparr>
                 else Inr \<lparr>decision = ''approved'', justification = [Covered proc best_score],
                           clauses = [t], confidence = best_score\<rparr>)
          else if 25 / 100 < best_score then
            (case clause_text best_match of
               None \<Rightarrow> Inl KeyError
             | Some t \<Rightarrow>
                 Inr \<lparr>decision = ''needs_review'',
                      justification = [PotentialCoverage proc best_score],
                      clauses = [t], confidence = best_score\<rparr>)
          else Inr \<lparr>decision = ''needs_review'', justification = [NotFound proc],
                     clauses = [], confidence = 0\<rparr>)"

definition check_procedure_coverage ::
  "encoder option \<Rightarrow> clause list \<Rightarrow> parsed_query \<Rightarrow> py_error + decision" where
  "check_procedure_coverage model all_clauses parsed =
     (case procedure parsed of
        None \<Rightarrow> Inr missing_information
      | Some proc \<Rightarrow>
          if proc = [] \<or> all_clauses = [] then Inr missing_information
          else
            (case model of
               None \<Rightarrow> Inr missing_information
             | Some enc \<Rightarrow>
                 (case enc proc of
                    Inl e \<Rightarrow> Inr semantic_error
                  | Inr proc_emb \<Rightarrow> classify proc (best_loop proc_emb all_clauses (None, 0)))))"

subsection \<open>The decision\<close>

definition invalid_query :: decision where
  "invalid_query = \<lparr>decision = ''needs_review'',
     justification = [InvalidQuery], clauses = [], confidence = 0\<rparr>"

text \<open>
  The parsed query is a dictionary; \<open>None\<close> stands for an empty dictionary or
  \<^verbatim>\<open>None\<close>, which the first test of \<^verbatim>\<open>make_decision\<close> takes alike.
\<close>

definition make_decision ::
  "encoder option \<Rightarrow> clause list \<Rightarrow> parsed_query option \<Rightarrow> py_error + decision" where
  "make_decision model all_clauses parsed_opt =
     (case parsed_opt of
        None \<Rightarrow> Inr invalid_query
      | Some parsed \<Rightarrow>
          (case check_waiting_period model all_clauses parsed of
             Inl e \<Rightarrow> Inl e
           | Inr (Some waiting_decision) \<Rightarrow> Inr waiting_decision
           | Inr None \<Rightarrow> check_procedure_coverage model all_clauses parsed))"

section \<open>The decision engine over a store\<close>

text \<open>
  To state what a call does to its inputs, the two stages and \<open>make_decision\<close> are
  written once more as functions on a store that holds the parsed query and the
  corpus. Each function returns its result and the store it leaves; the loops read the
  clause at the current index from the store, as the iteration over
  \<^verbatim>\<open>self.all_clauses\<close> does.
\<close>

record store =
  st_parsed :: "parsed_query option"
  st_clauses :: "clause list"

fun waiting_loop_st ::
  "encoder option \<Rightarrow> string \<Rightarrow> nat \<Rightarrow> nat \<Rightarrow> int list \<times> string list \<Rightarrow> store
     \<Rightarrow> (py_error + int list \<times> string list) \<times> store" where
  "waiting_loop_st model proc i 0 acc st = (Inr acc, st)"
| "waiting_loop_st model proc i (Suc n) acc st =
     (let c = st_clauses st ! i in
      case clause_text c of
        None \<Rightarrow> waiting_loop_st model proc (Suc i) n acc st
      | Some t \<Rightarrow>
          if \<not> contains ''waiting period'' (lower t)
          then waiting_loop_st model proc (Suc i) n acc st
          else if procedure_mentioned model proc (lower t) then
            (case extract_waiting_periods (lower t) of
               Inl e \<Rightarrow> (Inl e, st)
             | Inr periods \<Rightarrow>
                 if periods \<noteq> [] then
                   waiting_loop_st model proc (Suc i) n (fst acc @ periods, snd acc @ [t]) st
                 else waiting_loop_st model proc (Suc i) n acc st)
          else waiting_loop_st model proc (Suc i) n acc st)"

definition check_waiting_period_st ::
  "encoder option \<Rightarrow> store \<Rightarrow> (py_error + decision option) \<times> store" where
  "check_waiting_period_st model st =
     (case st_parsed st of
        None \<Rightarrow> (Inr None, st)
      | Some parsed \<Rightarrow>
     (case policy_duration_months parsed of
        None \<Rightarrow> (Inr None, st)
      | Some policy_duration \<Rightarrow>
     (case procedure parsed of
        None \<Rightarrow> (Inr None, st)
      | Some proc \<Rightarrow>
          if policy_duration = 0 \<or> proc = [] \<or> st_clauses st = [] then (Inr None, st)
          else
            (case waiting_loop_st model (lower proc) 0 (length (st_clauses st)) ([], []) st of
               (Inl e, st') \<Rightarrow> (Inl e, st')
             | (Inr (waiting_periods, relevant_clauses), st') \<Rightarrow>
                 if waiting_periods \<noteq> [] \<and> policy_duration < min_list waiting_periods
                 then (Inr (Some \<lparr>decision = ''rejected'',
                        justification =
                          [WaitingShortfall policy_duration (min_list waiting_periods) proc],
                        clauses = take 2 relevant_clauses,
                        confidence = 9 / 10\<rparr>), st')
                 else (Inr None, st')))))"

fun best_loop_st ::
  "real list \<Rightarrow> nat \<Rightarrow> nat \<Rightarrow> clause option \<times> real \<Rightarrow> store
     \<Rightarrow> (clause option \<times> real) \<times> store" where
  "best_loop_st proc_emb i 0 best st = (best, st)"
| "best_loop_st proc_emb i (Suc n) best st =
     (let c = st_clauses st ! i in
      case clause_embedding c of
        None \<Rightarrow> best_loop_st proc_emb (Suc i) n best st
      | Some emb \<Rightarrow>
          if emb = [] then best_loop_st proc_emb (Suc i) n best st
          else (case cosine proc_emb emb of
                  Inl e \<Rightarrow> best_loop_st proc_emb (Suc i) n best st
                | Inr similarity \<Rightarrow>
                    if snd best < similarity
                    then best_loop_st proc_emb (Suc i) n (Some c, similarity) st
                    else best_loop_st proc_emb (Suc i) n best st))"

definition check_procedure_coverage_st ::
  "encoder option \<Rightarrow> store \<Rightarrow> (py_error + decision) \<times> store" where
  "check_procedure_coverage_st model st =
     (case st_parsed st of
        None \<Rightarrow> (Inr missing_information, st)
      | Some parsed \<Rightarrow>
     (case procedure parsed of
        None \<Rightarrow> (Inr missing_information, st)
      | Some proc \<Rightarrow>
          if proc = [] \<or> st_clauses st = [] then (Inr missing_information, st)
          else
            (case model of
               None \<Rightarrow> (Inr missing_information, st)
             | Some enc \<Rightarrow>
                 (case enc proc of
                    Inl e \<Rightarrow> (Inr semantic_error, st)
                  | Inr proc_emb \<Rightarrow>
                      (case best_loop_st proc_emb 0 (length (st_clauses st)) (None, 0) st of
                         (best, st') \<Rightarrow> (classify proc best, st'))))))"

definition make_decision_st :: "encoder option \<Rightarrow> store \<Rightarrow> (py_error + decision) \<times> store" where
  "make_decision_st model st =
     (case st_parsed st of
        None \<Rightarrow> (Inr invalid_query, st)
      | Some parsed \<Rightarrow>
          (case check_waiting_period_st model st of
             (Inl e, st') \<Rightarrow> (Inl e, st')
           | (Inr (Some waiting_decision), st') \<Rightarrow> (Inr waiting_decision, st')
           | (Inr None, st') \<Rightarrow> check_procedure_coverage_st model st'))"

section \<open>Notions used to state the properties\<close>

text \<open>
  The clauses that stage 2 scores, each with its score, in the order of the corpus.
\<close>

definition scored :: "real list \<Rightarrow> clause list \<Rightarrow> (clause \<times> real) list" where
  "scored proc_emb cs =
     List.map_filter
       (\<lambda>c. case clause_embedding c of
               None \<Rightarrow> None
             | Some emb \<Rightarrow>
                 if emb = [] then None
                 else (case cosine proc_emb emb of Inl e \<Rightarrow> None | Inr x \<Rightarrow> Some (c, x)))
       cs"

text \<open>
  A clause is relevant for the waiting-period gate when its text holds
  \<^verbatim>\<open>waiting period\<close> and mentions the procedure; \<open>periods_of\<close> are the periods
  extracted from its text.
\<close>

definition waiting_clause :: "encoder option \<Rightarrow> string \<Rightarrow> clause \<Rightarrow> bool" where
  "waiting_clause model proc c =
     (case clause_text c of
        None \<Rightarrow> False
      | Some t \<Rightarrow> contains ''waiting period'' (lower t) \<and> procedure_mentioned model proc (lower t))"

definition clause_periods :: "clause \<Rightarrow> py_error + int list" where
  "clause_periods c =
     (case clause_text c of None \<Rightarrow> Inr [] | Some t \<Rightarrow> extract_waiting_periods (lower t))"

definition periods_of :: "clause \<Rightarrow> int list" where
  "periods_of c = (case clause_periods c of Inl e \<Rightarrow> [] | Inr ps \<Rightarrow> ps)"

section \<open>Inputs used to instantiate the properties\<close>

definition knee_query :: parsed_query where
  "knee_query = \<lparr>raw_query = PyNone, age = None, gender = None,
     procedure = Some ''Knee Surgery'', location = None, policy_duration_months = None\<rparr>"

definition unit_encoder :: encoder where
  "unit_encoder t = Inr [1]"

definition covered_clause :: clause where
  "covered_clause = \<lparr>clause_text = Some ''knee surgery is covered'',
     clause_embedding = Some [1]\<rparr>"

definition failing_encoder :: encoder where
  "failing_encoder t = Inl EncoderError"

definition knee12 :: parsed_query where
  "knee12 = \<lparr>raw_query = PyNone, age = None, gender = None,
     procedure = Some ''Knee Surgery'', location = None, policy_duration_months = Some 12\<rparr>"

definition general_clause :: clause where
  "general_clause = \<lparr>clause_text = Some ''A waiting period applies to knee surgery claims'',
     clause_embedding = None\<rparr>"

definition knee24_clause :: clause where
  "knee24_clause = \<lparr>clause_text = Some ''Knee surgery has a waiting period of 24 months'',
     clause_embedding = None\<rparr>"

definition waiting_rejection :: decision where
  "waiting_rejection = \<lparr>decision = ''rejected'',
     justification = [WaitingShortfall 12 24 ''Knee Surgery''],
     clauses = [''Knee surgery has a waiting period of 24 months''],
     confidence = 9 / 10\<rparr>"

definition no_procedure :: parsed_query where
  "no_procedure = \<lparr>raw_query = PyNone, age = None, gender = None,
     procedure = None, location = None, policy_duration_months = Some 12\<rparr>"

definition excluded_clause :: clause where
  "excluded_clause = \<lparr>clause_text = Some ''knee surgery is excluded'',
     clause_embedding = Some [1]\<rparr>"

section \<open>Properties of the similarity computation\<close>

text \<open>
  In exact arithmetic the quotient of stage 2 is at most 1, by the Cauchy-Schwarz
  inequality. The lemmas up to \<open>cosine_le_one\<close> are about the quotient over the real
  numbers only: they say nothing of its value in double precision, where each
  operation rounds.
\<close>

lemma sq_sum_nonneg: "0 \<le> sum_list (map (\<lambda>x. x * x) (xs :: real list))"
  by (induction xs) auto

lemma cauchy_step:
  fixes a b d X Y :: real
  assumes d: "d * d \<le> X * Y" and X: "0 \<le> X" and Y: "0 \<le> Y"
  shows "(a * b + d) * (a * b + d) \<le> (a * a + X) * (b * b + Y)"
proof -
  have nn: "0 \<le> a * a * Y + b * b * X" using X Y by simp
  have "(2 * a * b * d)\<^sup>2 = 4 * (a * a) * (b * b) * (d * d)"
    by (simp add: power2_eq_square algebra_simps)
  also have "\<dots> \<le> 4 * (a * a) * (b * b) * (X * Y)"
    using d by (intro mult_left_mono) auto
  also have "\<dots> \<le> (a * a * Y + b * b * X)\<^sup>2"
  proof -
    have "0 \<le> (a * a * Y - b * b * X)\<^sup>2" by simp
    then show ?thesis by (simp add: power2_eq_square algebra_simps)
  qed
  finally have "2 * a * b * d \<le> a * a * Y + b * b * X"
    using nn by (rule power2_le_imp_le)
  then show ?thesis using d by (simp add: algebra_simps)
qed

lemma cauchy_schwarz_list:
  fixes xs ys :: "real list"
  assumes "length xs = length ys"
  shows "sum_list (map2 (*) xs ys) * sum_list (map2 (*) xs ys)
           \<le> sum_list (map (\<lambda>x. x * x) xs) * sum_list (map (\<lambda>x. x * x) ys)"
  using assms
proof (induction xs ys rule: list_induct2)
  case Nil
  then show ?case by simp
next
  case (Cons x xs y ys)
  then show ?case
    using cauchy_step [of "sum_list (map2 (*) xs ys)" "sum_list (map (\<lambda>x. x * x) xs)"
        "sum_list (map (\<lambda>x. x * x) ys)" x y]
    by (simp add: sq_sum_nonneg)
qed

lemma dot_le_norms:
  assumes "length xs = length ys"
  shows "sum_list (map2 (*) xs ys) \<le> np_norm xs * np_norm ys"
proof -
  let ?d = "sum_list (map2 (*) xs ys)"
  have "?d \<le> \<bar>?d\<bar>" by simp
  also have "\<bar>?d\<bar> = sqrt (?d * ?d)" by (simp only: real_sqrt_abs2)
  also have "\<dots> \<le> sqrt (sum_list (map (\<lambda>x. x * x) xs) * sum_list (map (\<lambda>x. x * x) ys))"
    using cauchy_schwarz_list [OF assms] by (rule real_sqrt_le_mono)
  also have "\<dots> = np_norm xs * np_norm ys"
    by (simp add: np_norm_def real_sqrt_mult)
  finally show ?thesis .
qed

lemma np_norm_nonneg: "0 \<le> np_norm xs"
  by (simp add: np_norm_def sq_sum_nonneg)

lemma denominator_pos: "0 < np_norm a * np_norm b + 1 / 10 ^ 8"
proof -
  have "0 \<le> np_norm a * np_norm b" using np_norm_nonneg by simp
  then show ?thesis by simp
qed

lemma cosine_le_one:
  assumes "cosine a b = Inr s"
  shows "s \<le> 1"
proof -
  from assms have len: "length a = length b"
    and s: "s = sum_list (map2 (*) a b) / (np_norm a * np_norm b + 1 / 10 ^ 8)"
    by (auto simp: cosine_def np_dot_def split: if_splits)
  have "sum_list (map2 (*) a b) \<le> np_norm a * np_norm b + 1 / 10 ^ 8"
    using dot_le_norms [OF len] by simp
  then show ?thesis
    unfolding s using denominator_pos [of a b] by (simp add: divide_le_eq)
qed

lemma dot_zero_left: "sum_list (map2 (*) (replicate (length b) 0) (b :: real list)) = 0"
  by (induction b) auto

lemma cosine_zero_left: "cosine (replicate (length b) 0) b = Inr 0"
  by (simp add: cosine_def np_dot_def dot_zero_left)

lemma waiting_decision_shape:
  assumes "check_waiting_period model cs q = Inr (Some d)"
  shows "decision d = ''rejected'' \<and> confidence d = 9 / 10"
  using assms
  by (auto simp: check_waiting_period_def split: option.splits sum.splits if_splits prod.splits)

lemma covered_clause_not_excluded: "\<not> is_excluded ''knee surgery is covered''"
  by code_simp

text \<open>
  Claim C1 says that every decision has a confidence between 0 and 1. Stage 2 takes
  the best score as its confidence without the clamp that \<open>compute_similarity\<close>
  applies to the same quotient: \<open>classify\<close> returns the score it is given, also
  when the score is above 1. In double precision the quotient can be above 1: it is
  \<^verbatim>\<open>1.0000000000000002\<close> for the vector \<^verbatim>\<open>[1e5, 2e5]\<close> against itself, and
  \<^verbatim>\<open>1.95\<close> for \<^verbatim>\<open>[1.5e-162]\<close> against \<^verbatim>\<open>[1.3e154]\<close>, where the square of the
  first norm underflows to 0.
\<close>

lemma classify_keeps_score_above_one:
  "classify ''Knee Surgery'' (Some covered_clause, 195 / 100) =
     Inr \<lparr>decision = ''approved'', justification = [Covered ''Knee Surgery'' (195 / 100)],
          clauses = [''knee surgery is covered''], confidence = 195 / 100\<rparr>"
  using covered_clause_not_excluded
  by (simp add: classify_def covered_clause_def Let_def)

text \<open>
  Claim C8. \<open>compute_similarity\<close> always returns a number between 0 and 1 and never
  raises: the denominator of the cosine is positive, so a vector of magnitude zero
  divides nothing by zero; a failure of the encoder gives 0; the cosine is clamped
  into the interval.
\<close>

theorem compute_similarity_in_unit_interval:
  "(\<exists>r. compute_similarity model text1 text2 = Inr r \<and> 0 \<le> r \<and> r \<le> 1)
   \<and> 0 < np_norm a * np_norm b + 1 / 10 ^ 8
   \<and> cosine (replicate (length b) 0) b = Inr 0
   \<and> (enc t1 = Inl e \<or> enc t2 = Inl e \<longrightarrow> compute_similarity (Some enc) t1 t2 = Inr 0)
   \<and> (enc' u1 = Inr e1 \<and> enc' u2 = Inr e2 \<and> cosine e1 e2 = Inr c \<and> u1 \<noteq> [] \<and> u2 \<noteq> []
        \<longrightarrow> compute_similarity (Some enc') u1 u2 = Inr (max 0 (min 1 c)))"
proof -
  have 1: "\<exists>r. compute_similarity model text1 text2 = Inr r \<and> 0 \<le> r \<and> r \<le> 1"
    by (auto simp: compute_similarity_def similarity_body_def split: option.splits sum.splits)
  have 4: "enc t1 = Inl e \<or> enc t2 = Inl e \<longrightarrow> compute_similarity (Some enc) t1 t2 = Inr 0"
    by (auto simp: compute_similarity_def similarity_body_def split: sum.splits)
  have 5: "enc' u1 = Inr e1 \<and> enc' u2 = Inr e2 \<and> cosine e1 e2 = Inr c \<and> u1 \<noteq> [] \<and> u2 \<noteq> []
        \<longrightarrow> compute_similarity (Some enc') u1 u2 = Inr (max 0 (min 1 c))"
    by (simp add: compute_similarity_def similarity_body_def)
  from 1 denominator_pos cosine_zero_left 4 5 show ?thesis by blast
qed

theorem compute_similarity_in_unit_interval_witness:
  "compute_similarity (Some failing_encoder) ''knee'' ''hip'' = Inr 0
   \<and> compute_similarity (Some unit_encoder) ''knee'' ''hip'' = Inr (100000000 / 100000001)"
proof -
  have c: "cosine [1] [1] = Inr (100000000 / 100000001)"
    by (simp add: cosine_def np_dot_def np_norm_def)
  have m: "max 0 (min 1 (100000000 / 100000001 :: real)) = 100000000 / 100000001"
    by simp
  from compute_similarity_in_unit_interval
    [of _ _ _ _ _ failing_encoder "''knee''" EncoderError "''hip''" unit_encoder "''knee''" "[1]"
      "''hip''" "[1]" "100000000 / 100000001"] c m
  show ?thesis by (simp add: failing_encoder_def unit_encoder_def)
qed

section \<open>Properties of stage 2\<close>

lemma scored_Nil: "scored v [] = []"
  by (simp add: scored_def map_filter_simps)

lemma scored_Cons:
  "scored v (c # cs) =
     (case clause_embedding c of
        None \<Rightarrow> scored v cs
      | Some emb \<Rightarrow>
          if emb = [] then scored v cs
          else (case cosine v emb of Inl e \<Rightarrow> scored v cs | Inr x \<Rightarrow> (c, x) # scored v cs))"
  by (simp add: scored_def map_filter_simps split: option.splits sum.splits)

lemma foldl_max_ge: "(x :: real) \<le> foldl max x ys"
proof (induction ys arbitrary: x)
  case Nil
  then show ?case by simp
next
  case (Cons y ys)
  have "x \<le> max x y" by simp
  also have "\<dots> \<le> foldl max (max x y) ys" by (rule Cons.IH)
  finally show ?case by simp
qed

lemma best_loop_char:
  "best_loop v cs (b, x) =
     (if foldl max x (map snd (scored v cs)) = x then b
      else map_option fst (find (\<lambda>cx. snd cx = foldl max x (map snd (scored v cs))) (scored v cs)),
      foldl max x (map snd (scored v cs)))"
proof (induction cs arbitrary: b x)
  case Nil
  then show ?case by (simp add: scored_Nil)
next
  case (Cons c cs)
  show ?case
  proof (cases "clause_embedding c")
    case None
    then show ?thesis using Cons [of b x] by (simp add: scored_Cons)
  next
    case (Some emb)
    show ?thesis
    proof (cases "emb = []")
      case True
      then show ?thesis using Some Cons [of b x] by (simp add: scored_Cons)
    next
      case False
      show ?thesis
      proof (cases "cosine v emb")
        case (Inl e)
        then show ?thesis using Some False Cons [of b x] by (simp add: scored_Cons)
      next
        case (Inr y)
        have sc: "scored v (c # cs) = (c, y) # scored v cs"
          using Some False Inr by (simp add: scored_Cons)
        show ?thesis
        proof (cases "x < y")
          case True
          then have mx: "max x y = y" by simp
          have ge: "y \<le> foldl max y (map snd (scored v cs))" by (rule foldl_max_ge)
          have step: "best_loop v (c # cs) (b, x) = best_loop v cs (Some c, y)"
            using Some False Inr True by simp
          show ?thesis
            unfolding step Cons [of "Some c" y] sc
            using True ge by (auto simp: mx)
        next
          case nlt: False
          then have mx: "max x y = x" by simp
          have ge: "x \<le> foldl max x (map snd (scored v cs))" by (rule foldl_max_ge)
          have step: "best_loop v (c # cs) (b, x) = best_loop v cs (b, x)"
            using Some False Inr nlt by simp
          show ?thesis
            unfolding step Cons [of b x] sc
            using nlt ge by (auto simp: mx)
        qed
      qed
    qed
  qed
qed

lemma foldl_max_Max: "foldl max (x :: real) ys = Max (insert x (set ys))"
proof (induction ys arbitrary: x)
  case Nil
  then show ?case by simp
next
  case (Cons y ys)
  have "foldl max x (y # ys) = Max (insert (max x y) (set ys))"
    using Cons [of "max x y"] by simp
  also have "\<dots> = Max (insert x (set (y # ys)))"
  proof (cases "set ys = {}")
    case True
    then show ?thesis by (simp add: max.commute)
  next
    case False
    then show ?thesis by (simp add: max.assoc)
  qed
  finally show ?case .
qed

lemma best_loop_start:
  "best_loop v cs (None, 0) =
     (let s = Max (insert 0 (snd ` set (scored v cs)))
      in (if s = 0 then None else map_option fst (find (\<lambda>cx. snd cx = s) (scored v cs)), s))"
  by (simp add: best_loop_char foldl_max_Max Let_def)

lemma find_attained:
  assumes "s \<in> snd ` set xs"
  shows "\<exists>c. find (\<lambda>cx. snd cx = s) xs = Some (c, s)"
proof -
  from assms have "\<exists>cx \<in> set xs. snd cx = s" by auto
  then obtain cx where f: "find (\<lambda>cx. snd cx = s) xs = Some cx"
    by (cases "find (\<lambda>cx. snd cx = s) xs") (auto simp: find_None_iff)
  then have "snd cx = s" by (auto simp: find_Some_iff)
  with f show ?thesis by (cases cx) auto
qed

text \<open>
  Claim C3. Stage 2 with a known procedure, a corpus and an encoder that encodes the
  procedure: \<open>s\<close> is the greatest score of the clauses that carry an embedding (0 when
  none is scored) and the best clause is the first one that attains it. Above 0.45 the
  decision is a rejection with confidence \<open>min 0.9 (s + 0.1)\<close> when the text of the best
  clause holds an exclusion keyword and an approval with confidence \<open>s\<close> otherwise;
  above 0.25 it is \<open>needs_review\<close> with confidence \<open>s\<close>; else it is
  \<open>needs_review\<close> with confidence 0. A decision cites the text of the best clause or
  nothing.
\<close>

theorem coverage_bands:
  assumes proc: "procedure q = Some p" "p \<noteq> []"
    and corpus: "cs \<noteq> []"
    and enc: "enc p = Inr v"
    and s: "s = Max (insert 0 (snd ` set (scored v cs)))"
    and best_text: "\<And>c. find (\<lambda>cx. snd cx = s) (scored v cs) = Some (c, s) \<Longrightarrow> clause_text c = Some t"
  shows "check_procedure_coverage (Some enc) cs q =
     Inr (if 45 / 100 < s then
            (if is_excluded t
             then \<lparr>decision = ''rejected'', justification = [Excluded p s], clauses = [t],
                   confidence = min (9 / 10) (s + 1 / 10)\<rparr>
             else \<lparr>decision = ''approved'', justification = [Covered p s], clauses = [t],
                   confidence = s\<rparr>)
          else if 25 / 100 < s then
            \<lparr>decision = ''needs_review'', justification = [PotentialCoverage p s],
             clauses = [t], confidence = s\<rparr>
          else \<lparr>decision = ''needs_review'', justification = [NotFound p], clauses = [],
                confidence = 0\<rparr>)"
proof -
  have cov: "check_procedure_coverage (Some enc) cs q = classify p (best_loop v cs (None, 0))"
    using proc corpus enc by (simp add: check_procedure_coverage_def)
  show ?thesis
  proof (cases "25 / 100 < s")
    case False
    then have "classify p (best_loop v cs (None, 0)) =
        Inr \<lparr>decision = ''needs_review'', justification = [NotFound p], clauses = [],
             confidence = 0\<rparr>"
      unfolding best_loop_start s [symmetric]
      by (auto simp: classify_def Let_def split: option.splits)
    then show ?thesis using False cov by simp
  next
    case True
    then have "s \<noteq> 0" by simp
    then have "s \<in> snd ` set (scored v cs)"
      using Max_in [of "insert 0 (snd ` set (scored v cs))"] s by auto
    from find_attained [OF this] obtain c where
      f: "find (\<lambda>cx. snd cx = s) (scored v cs) = Some (c, s)" by blast
    have t: "clause_text c = Some t" using best_text f by blast
    have bl: "best_loop v cs (None, 0) = (Some c, s)"
      unfolding best_loop_start s [symmetric] using \<open>s \<noteq> 0\<close> f by simp
    show ?thesis
      unfolding cov bl using True t by (simp add: classify_def Let_def)
  qed
qed

theorem coverage_bands_witness:
  "check_procedure_coverage (Some unit_encoder) [excluded_clause, covered_clause] knee_query =
     Inr \<lparr>decision = ''rejected'',
          justification = [Excluded ''Knee Surgery'' (100000000 / 100000001)],
          clauses = [''knee surgery is excluded''], confidence = 9 / 10\<rparr>"
proof -
  have sc: "scored [1] [excluded_clause, covered_clause] =
      [(excluded_clause, 100000000 / 100000001), (covered_clause, 100000000 / 100000001)]"
    by (simp add: scored_Cons scored_Nil excluded_clause_def covered_clause_def cosine_def
        np_dot_def np_norm_def)
  have h1: "procedure knee_query = Some ''Knee Surgery''" "''Knee Surgery'' \<noteq> []"
    "[excluded_clause, covered_clause] \<noteq> []" "unit_encoder ''Knee Surgery'' = Inr [1]"
    by (simp_all add: knee_query_def unit_encoder_def)
  have h2: "(100000000 / 100000001 :: real) =
      Max (insert 0 (snd ` set (scored [1] [excluded_clause, covered_clause])))"
    by (simp add: sc)
  have h3: "\<And>c. find (\<lambda>cx. snd cx = 100000000 / 100000001)
        (scored [1] [excluded_clause, covered_clause]) = Some (c, 100000000 / 100000001)
      \<Longrightarrow> clause_text c = Some ''knee surgery is excluded''"
    unfolding sc by (auto simp: excluded_clause_def)
  have ex: "is_excluded ''knee surgery is excluded''"
    by code_simp
  from coverage_bands [where q = knee_query and p = "''Knee Surgery''"
      and cs = "[excluded_clause, covered_clause]" and enc = unit_encoder and v = "[1]"
      and s = "100000000 / 100000001" and t = "''knee surgery is excluded''", OF h1 h2 h3] ex
  show ?thesis by simp
qed


section \<open>Properties of the waiting-period gate and of the decision\<close>

lemma lower_knee: "lower ''Knee Surgery'' = ''knee surgery''"
  by code_simp

lemma general_clause_eval:
  "contains ''waiting period'' (lower ''A waiting period applies to knee surgery claims'')
   \<and> lexical_mention ''knee surgery'' (lower ''A waiting period applies to knee surgery claims'')
   \<and> extract_waiting_periods (lower ''A waiting period applies to knee surgery claims'') = Inr []"
  by code_simp

lemma knee24_clause_eval:
  "contains ''waiting period'' (lower ''Knee surgery has a waiting period of 24 months'')
   \<and> lexical_mention ''knee surgery'' (lower ''Knee surgery has a waiting period of 24 months'')
   \<and> extract_waiting_periods (lower ''Knee surgery has a waiting period of 24 months'')
       = Inr [24, 24]"
  by code_simp

lemma waiting_loop_gap:
  "waiting_loop None ''knee surgery'' [general_clause, knee24_clause] ([], []) =
     Inr ([24, 24], [''Knee surgery has a waiting period of 24 months''])"
  using general_clause_eval knee24_clause_eval
  by (simp add: general_clause_def knee24_clause_def procedure_mentioned_def)

lemma waiting_clause_gap:
  "List.map_filter clause_text (filter (waiting_clause None ''knee surgery'') [general_clause, knee24_clause])
     = [''A waiting period applies to knee surgery claims'', ''Knee surgery has a waiting period of 24 months'']"
  using general_clause_eval knee24_clause_eval
  by (simp add: general_clause_def knee24_clause_def procedure_mentioned_def waiting_clause_def
      map_filter_simps)

lemma waiting_loop_char:
  assumes "\<forall>c \<in> set cs. waiting_clause model proc c \<longrightarrow> (\<exists>ps. clause_periods c = Inr ps)"
  shows "waiting_loop model proc cs (W, R) =
     Inr (W @ concat (map periods_of (filter (waiting_clause model proc) cs)),
          R @ List.map_filter clause_text
                (filter (\<lambda>c. waiting_clause model proc c \<and> periods_of c \<noteq> []) cs))"
  using assms
proof (induction cs arbitrary: W R)
  case Nil
  then show ?case by (simp add: map_filter_simps)
next
  case (Cons c cs)
  then have IH: "\<And>W R. waiting_loop model proc cs (W, R) =
     Inr (W @ concat (map periods_of (filter (waiting_clause model proc) cs)),
          R @ List.map_filter clause_text
                (filter (\<lambda>c. waiting_clause model proc c \<and> periods_of c \<noteq> []) cs))"
    by simp
  show ?case
  proof (cases "waiting_clause model proc c")
    case False
    then have "waiting_loop model proc (c # cs) (W, R) = waiting_loop model proc cs (W, R)"
      by (cases "clause_text c") (auto simp: waiting_clause_def)
    then show ?thesis using False by (simp add: IH)
  next
    case True
    then obtain t where t: "clause_text c = Some t"
      "contains ''waiting period'' (lower t)" "procedure_mentioned model proc (lower t)"
      by (auto simp: waiting_clause_def split: option.splits)
    from Cons.prems True obtain ps where ps: "clause_periods c = Inr ps" by auto
    then have e: "extract_waiting_periods (lower t) = Inr ps" using t by (simp add: clause_periods_def)
    have po: "periods_of c = ps" using ps by (simp add: periods_of_def)
    show ?thesis using True t e po by (simp add: IH map_filter_simps)
  qed
qed

lemma make_decision_gap:
  "make_decision None [general_clause, knee24_clause] (Some knee12) = Inr waiting_rejection"
  using waiting_loop_gap
  by (simp add: make_decision_def check_waiting_period_def knee12_def lower_knee
      waiting_rejection_def)

text \<open>
  Claim C2, as amended. The query has a procedure that is not empty and a policy
  duration other than 0, the corpus is not empty, and the extraction of periods raises
  for no relevant clause. The pool holds the periods of the relevant clauses, and the
  cited clauses are the relevant clauses that gave at least one period. When the pool
  is not empty and the duration is below its minimum, \<open>make_decision\<close> returns the
  rejection with confidence 0.9 that cites the first two cited clauses; otherwise it
  returns the result of stage 2.
\<close>

theorem waiting_period_gate:
  assumes "procedure q = Some p" "p \<noteq> []"
    and "policy_duration_months q = Some d" "d \<noteq> 0"
    and "cs \<noteq> []"
    and "\<forall>c \<in> set cs. waiting_clause model (lower p) c \<longrightarrow> (\<exists>ps. clause_periods c = Inr ps)"
    and "pool = concat (map periods_of (filter (waiting_clause model (lower p)) cs))"
    and "cited = List.map_filter clause_text
           (filter (\<lambda>c. waiting_clause model (lower p) c \<and> periods_of c \<noteq> []) cs)"
  shows "make_decision model cs (Some q) =
     (if pool \<noteq> [] \<and> d < min_list pool
      then Inr \<lparr>decision = ''rejected'',
                justification = [WaitingShortfall d (min_list pool) p],
                clauses = take 2 cited, confidence = 9 / 10\<rparr>
      else check_procedure_coverage model cs q)"
proof -
  have loop: "waiting_loop model (lower p) cs ([], []) = Inr (pool, cited)"
    using assms(6-8) waiting_loop_char [of cs model "lower p" "[]" "[]"] by simp
  have "check_waiting_period model cs q =
     (if pool \<noteq> [] \<and> d < min_list pool
      then Inr (Some \<lparr>decision = ''rejected'',
                justification = [WaitingShortfall d (min_list pool) p],
                clauses = take 2 cited, confidence = 9 / 10\<rparr>)
      else Inr None)"
    using assms(1-5) by (simp add: check_waiting_period_def loop)
  then show ?thesis by (simp add: make_decision_def)
qed

theorem waiting_period_gate_witness:
  "make_decision None [general_clause, knee24_clause] (Some knee12) =
     Inr \<lparr>decision = ''rejected'',
          justification = [WaitingShortfall 12 24 ''Knee Surgery''],
          clauses = [''Knee surgery has a waiting period of 24 months''],
          confidence = 9 / 10\<rparr>"
proof -
  have g: "waiting_clause None ''knee surgery'' general_clause"
    "waiting_clause None ''knee surgery'' knee24_clause"
    using general_clause_eval knee24_clause_eval
    by (simp_all add: waiting_clause_def general_clause_def knee24_clause_def
        procedure_mentioned_def)
  have p: "clause_periods general_clause = Inr []" "clause_periods knee24_clause = Inr [24, 24]"
    using general_clause_eval knee24_clause_eval
    by (simp_all add: clause_periods_def general_clause_def knee24_clause_def)
  have po: "periods_of general_clause = []" "periods_of knee24_clause = [24, 24]"
    using p by (simp_all add: periods_of_def)
  have h1: "procedure knee12 = Some ''Knee Surgery''" "''Knee Surgery'' \<noteq> []"
    "policy_duration_months knee12 = Some 12" "(12::int) \<noteq> 0"
    "[general_clause, knee24_clause] \<noteq> []"
    by (simp_all add: knee12_def)
  have h2: "\<forall>c \<in> set [general_clause, knee24_clause].
      waiting_clause None (lower ''Knee Surgery'') c \<longrightarrow> (\<exists>ps. clause_periods c = Inr ps)"
    using p by simp
  have h3: "[24, 24] = concat (map periods_of
      (filter (waiting_clause None (lower ''Knee Surgery'')) [general_clause, knee24_clause]))"
    using g po by (simp add: lower_knee)
  have h4: "[''Knee surgery has a waiting period of 24 months''] = List.map_filter clause_text
      (filter (\<lambda>c. waiting_clause None (lower ''Knee Surgery'') c \<and> periods_of c \<noteq> [])
         [general_clause, knee24_clause])"
    using g po by (simp add: lower_knee map_filter_simps knee24_clause_def)
  from waiting_period_gate [OF h1 h2 h3 h4] show ?thesis by simp
qed

theorem waiting_period_gate_counterexample:
  "make_decision None [general_clause, knee24_clause] (Some knee12) = Inr waiting_rejection
   \<and> clauses waiting_rejection \<noteq>
       take 2 (List.map_filter clause_text
         (filter (waiting_clause None (lower ''Knee Surgery'')) [general_clause, knee24_clause]))"
  using make_decision_gap waiting_clause_gap
  by (simp add: lower_knee waiting_rejection_def)

text \<open>
  Claim C4, as amended. When the procedure is absent or empty, or the corpus is empty,
  \<open>make_decision\<close> returns \<open>needs_review\<close> with confidence 0; so it does for an
  empty query. Without an encoder stage 2 returns \<open>needs_review\<close> with confidence 0,
  and a decision returned by \<open>make_decision\<close> is that one or the rejection of the
  waiting-period gate, which needs no encoder.
\<close>

theorem missing_data_needs_review:
  "(procedure q = None \<or> procedure q = Some [] \<or> cs = []
      \<longrightarrow> make_decision model cs (Some q) = Inr missing_information)
   \<and> make_decision model cs None = Inr invalid_query
   \<and> decision missing_information = ''needs_review'' \<and> confidence missing_information = 0
   \<and> decision invalid_query = ''needs_review'' \<and> confidence invalid_query = 0
   \<and> check_procedure_coverage None cs' q' = Inr missing_information
   \<and> (make_decision None cs' (Some q') = Inr d
      \<longrightarrow> d = missing_information
          \<or> check_waiting_period None cs' q' = Inr (Some d) \<and> decision d = ''rejected''
            \<and> confidence d = 9 / 10)"
proof -
  have 1: "procedure q = None \<or> procedure q = Some [] \<or> cs = []
      \<longrightarrow> make_decision model cs (Some q) = Inr missing_information"
    by (auto simp: make_decision_def check_waiting_period_def check_procedure_coverage_def
        split: option.splits)
  have 2: "make_decision model cs None = Inr invalid_query"
    by (simp add: make_decision_def)
  have 3: "check_procedure_coverage None cs' q' = Inr missing_information"
    by (simp add: check_procedure_coverage_def split: option.splits)
  have 4: "make_decision None cs' (Some q') = Inr d
      \<longrightarrow> d = missing_information
          \<or> check_waiting_period None cs' q' = Inr (Some d) \<and> decision d = ''rejected''
            \<and> confidence d = 9 / 10"
  proof
    assume a: "make_decision None cs' (Some q') = Inr d"
    show "d = missing_information
          \<or> check_waiting_period None cs' q' = Inr (Some d) \<and> decision d = ''rejected''
            \<and> confidence d = 9 / 10"
    proof (cases "check_waiting_period None cs' q'")
      case (Inl e)
      then show ?thesis using a by (simp add: make_decision_def)
    next
      case (Inr w)
      show ?thesis
      proof (cases w)
        case None
        then show ?thesis using a Inr 3 by (simp add: make_decision_def)
      next
        case (Some wd)
        then have "wd = d" using a Inr by (simp add: make_decision_def)
        then show ?thesis using Inr Some waiting_decision_shape [of None cs' q' d] by simp
      qed
    qed
  qed
  from 1 2 3 4 show ?thesis
    by (simp add: missing_information_def invalid_query_def)
qed

theorem missing_data_needs_review_witness:
  "make_decision None [knee24_clause] (Some no_procedure) = Inr missing_information
   \<and> (make_decision None [general_clause, knee24_clause] (Some knee12) = Inr waiting_rejection
      \<and> check_waiting_period None [general_clause, knee24_clause] knee12
          = Inr (Some waiting_rejection))"
proof -
  have c: "check_waiting_period None [general_clause, knee24_clause] knee12
          = Inr (Some waiting_rejection)"
    using waiting_loop_gap
    by (simp add: check_waiting_period_def knee12_def lower_knee waiting_rejection_def)
  have n: "waiting_rejection \<noteq> missing_information"
    by (simp add: waiting_rejection_def missing_information_def)
  from missing_data_needs_review
    [of no_procedure "[knee24_clause]" None "[general_clause, knee24_clause]" knee12
      waiting_rejection]
    make_decision_gap c n
  show ?thesis by (simp add: no_procedure_def)
qed

theorem missing_data_needs_review_counterexample:
  "make_decision None [general_clause, knee24_clause] (Some knee12) = Inr waiting_rejection
   \<and> decision waiting_rejection \<noteq> ''needs_review'' \<and> confidence waiting_rejection \<noteq> 0"
  using make_decision_gap by (simp add: waiting_rejection_def)

section \<open>The decision engine leaves its inputs unchanged\<close>

lemma waiting_loop_st_eq:
  "i + n = length (st_clauses st) \<Longrightarrow>
   waiting_loop_st model proc i n acc st =
     (waiting_loop model proc (drop i (st_clauses st)) acc, st)"
proof (induction n arbitrary: i acc)
  case 0
  then show ?case by simp
next
  case (Suc n)
  then have i: "i < length (st_clauses st)" by simp
  have d: "drop i (st_clauses st) = st_clauses st ! i # drop (Suc i) (st_clauses st)"
    using i by (simp add: Cons_nth_drop_Suc)
  have IH: "\<And>acc. waiting_loop_st model proc (Suc i) n acc st =
     (waiting_loop model proc (drop (Suc i) (st_clauses st)) acc, st)"
    using Suc by simp
  show ?case
    unfolding d by (simp add: IH Let_def split: option.splits sum.splits)
qed

lemma best_loop_st_eq:
  "i + n = length (st_clauses st) \<Longrightarrow>
   best_loop_st v i n best st = (best_loop v (drop i (st_clauses st)) best, st)"
proof (induction n arbitrary: i best)
  case 0
  then show ?case by simp
next
  case (Suc n)
  then have i: "i < length (st_clauses st)" by simp
  have d: "drop i (st_clauses st) = st_clauses st ! i # drop (Suc i) (st_clauses st)"
    using i by (simp add: Cons_nth_drop_Suc)
  have IH: "\<And>best. best_loop_st v (Suc i) n best st =
     (best_loop v (drop (Suc i) (st_clauses st)) best, st)"
    using Suc by simp
  show ?case
    unfolding d by (simp add: IH Let_def split: option.splits sum.splits)
qed

lemma check_waiting_period_st_eq:
  "st_parsed st = Some parsed \<Longrightarrow>
   check_waiting_period_st model st = (check_waiting_period model (st_clauses st) parsed, st)"
  by (simp add: check_waiting_period_st_def check_waiting_period_def waiting_loop_st_eq
      split: option.splits sum.splits prod.splits)

lemma check_procedure_coverage_st_eq:
  "st_parsed st = Some parsed \<Longrightarrow>
   check_procedure_coverage_st model st =
     (check_procedure_coverage model (st_clauses st) parsed, st)"
  by (simp add: check_procedure_coverage_st_def check_procedure_coverage_def best_loop_st_eq
      split: option.splits sum.splits prod.splits)

text \<open>
  Claim C10. \<open>make_decision\<close> and its two stages leave their inputs as they were: the
  store that holds the parsed query and the corpus (each clause with its text and its
  embedding) is the same after the call, and the result is the one computed from the
  inputs.
\<close>

theorem decision_read_only:
  "snd (check_waiting_period_st model st) = st
   \<and> snd (check_procedure_coverage_st model st) = st
   \<and> snd (make_decision_st model st) = st
   \<and> fst (make_decision_st model st) = make_decision model (st_clauses st) (st_parsed st)"
proof (cases "st_parsed st")
  case None
  then show ?thesis
    by (simp add: check_waiting_period_st_def check_procedure_coverage_st_def
        make_decision_st_def make_decision_def)
next
  case (Some parsed)
  then show ?thesis
    by (simp add: check_waiting_period_st_eq check_procedure_coverage_st_eq
        make_decision_st_def make_decision_def split: option.splits sum.splits)
qed

section \<open>Properties of the parser\<close>

lemma age_gender_body_range:
  "age_gender_body i m = Inr (Some a, g) \<Longrightarrow> 0 \<le> a \<and> a \<le> 120"
  by (auto simp: age_gender_body_def Let_def split: if_splits option.splits)

lemma age_gender_loop_range:
  "age_gender_loop i pats q = Inr (Some a, g) \<Longrightarrow> 0 \<le> a \<and> a \<le> 120"
proof (induction pats arbitrary: i)
  case Nil
  then show ?case by simp
next
  case (Cons pat pats)
  then show ?case
    by (cases "re_search pat q") (auto dest: age_gender_body_range)
qed

lemma age_only_loop_range:
  "age_only_loop pats q = Inr (Some a) \<Longrightarrow> 0 \<le> a \<and> a \<le> 120"
proof (induction pats)
  case Nil
  then show ?case by simp
next
  case (Cons pat pats)
  then show ?case
    by (auto simp: Let_def split: option.splits if_splits)
qed

lemma parse_query_age_range:
  assumes "parse_query x = Inr r" "age r = Some a"
  shows "0 \<le> a \<and> a \<le> 120"
proof -
  from assms obtain s where x: "x = PyStr s" "s \<noteq> []" "parse_text x s = Inr r"
    by (auto simp: parse_query_def empty_parsed_def split: py_value.splits if_splits)
  from x(3) assms(2) show ?thesis
    by (auto simp: parse_text_def Let_def split: sum.splits prod.splits if_splits
        dest: age_gender_loop_range age_only_loop_range)
qed

lemma parse_query_not_text:
  "parse_query PyNone = Inr (empty_parsed PyNone)"
  "parse_query (PyStr []) = Inr (empty_parsed (PyStr []))"
  "parse_query (PyInt n) = Inr (empty_parsed (PyInt n))"
  by (simp_all add: parse_query_def)

lemma to_months_day_words:
  "to_months n ''days'' = Inr (n * 12)" "to_months n ''day'' = Inr (n * 12)"
  by (simp_all add: to_months_def)

text \<open>
  Claim C9. Parsing \<^verbatim>\<open>46M knee surgery 6-month policy Pune\<close> gives age 46, gender
  Male, procedure \<^verbatim>\<open>Knee Surgery\<close>, location Pune and a policy duration of 6 months.
\<close>

theorem parse_scenario:
  "parse_query (PyStr ''46M knee surgery 6-month policy Pune'') =
     Inr \<lparr>raw_query = PyStr ''46M knee surgery 6-month policy Pune'', age = Some 46,
          gender = Some ''Male'', procedure = Some ''Knee Surgery'', location = Some ''Pune'',
          policy_duration_months = Some 6\<rparr>"
  by code_simp

text \<open>
  Claim C5 says that a duration in days is stored as \<open>max 1 (round (N / 30))\<close> months.
  The parser stores \<open>N * 12\<close>: the test for a unit of years looks for the letter
  \<^verbatim>\<open>y\<close>, which the units \<^verbatim>\<open>day\<close> and \<^verbatim>\<open>days\<close> contain. At the input
  \<^verbatim>\<open>30 days\<close> the stored duration is 360 months, not 1.
\<close>

theorem parse_days_as_years:
  "parse_query (PyStr ''30 days'') =
     Inr \<lparr>raw_query = PyStr ''30 days'', age = None, gender = None, procedure = None,
          location = None, policy_duration_months = Some 360\<rparr>"
  by code_simp

text \<open>
  Claim C6 says that a combined pattern whose age is out of range counts as no match, so
  that the later patterns are still tried. The loop over the combined patterns ends at
  the first pattern that matches, whatever the age: at the input
  \<^verbatim>\<open>150 m, male 40\<close> the first pattern captures the age 150, and the third pattern,
  which would give the age 40, is not tried; the age stays unknown.
\<close>

theorem parse_out_of_range_age_stops_cascade:
  "parse_query (PyStr ''150 m, male 40'') =
     Inr \<lparr>raw_query = PyStr ''150 m, male 40'', age = None, gender = Some ''Male'',
          procedure = None, location = None, policy_duration_months = Some 150\<rparr>
   \<and> map_option (age_gender_body 2) (re_search (age_gender_patterns ! 2) ''150 m, male 40'')
       = Some (Inr (Some 40, Some ''Male''))"
  by code_simp

text \<open>
  Claim C7 says that the parser never raises. For a duration with the unit \<^verbatim>\<open>d\<close> and
  a number of days whose thirtieth is too large for a float, the division raises
  \<^verbatim>\<open>OverflowError\<close>, which the handler for \<^verbatim>\<open>ValueError\<close> and \<^verbatim>\<open>IndexError\<close>
  does not catch: the input is \<^verbatim>\<open>46F\<close>, a blank, the digit 9 written 310 times and
  \<^verbatim>\<open>d\<close>.
\<close>

theorem parse_raises_overflow:
  "parse_query (PyStr (''46F '' @ replicate 310 CHR ''9'' @ ''d'')) = Inl OverflowError"
  by code_simp

end
